theory Spec2Isabelle
  imports Complex_Main "HOL-Library.Multiset" "HOL-Library.Log_Nat"
begin

section \<open>JavaScript numbers\<close>

text \<open>
  A JavaScript number is an IEEE 754 double. A finite double is modelled by the real number
  it denotes; the infinities and NaN are lumped together as \<open>NonFinite\<close>. An arithmetic
  operation on finite operands returns the exact result rounded to the nearest double, ties
  to the even significand, and a result at or beyond \<open>2 ^ 1024\<close> in magnitude overflows.
  The two zeros are not told apart: nothing in the program depends on the sign of a zero.
\<close>

datatype number = Finite real | NonFinite

definition round_half_even :: "real \<Rightarrow> int" where
  "round_half_even x =
     (let f = \<lfloor>x\<rfloor> in
      if x - of_int f < 1 / 2 then f
      else if 1 / 2 < x - of_int f then f + 1
      else if even f then f else f + 1)"

text \<open>
  The binary exponent of a non-zero real: \<open>2 ^ e \<le> |x| < 2 ^ (e + 1)\<close>. It is computed
  from the bit length of the integer part of \<open>|x|\<close>, or of \<open>1 / |x|\<close> below 1.
\<close>

definition exponent :: "real \<Rightarrow> int" where
  "exponent x =
     (if 1 \<le> \<bar>x\<bar> then int (floorlog 2 (nat \<lfloor>\<bar>x\<bar>\<rfloor>)) - 1
      else - int (floorlog 2 (nat (\<lceil>1 / \<bar>x\<bar>\<rceil> - 1))))"

text \<open>
  The spacing of the doubles around \<open>x\<close>: 52 fraction bits below the exponent, and the
  fixed spacing \<open>2 ^ -1074\<close> of the subnormal range below \<open>2 ^ -1022\<close>.
\<close>

definition quantum :: "real \<Rightarrow> real" where
  "quantum x = 2 powi (max (exponent x) (- 1022) - 52)"

definition overflows :: "real \<Rightarrow> bool" where
  "overflows r = (r \<noteq> 0 \<and> 1024 \<le> exponent r)"

definition round_double :: "real \<Rightarrow> number" where
  "round_double x =
     (if x = 0 then Finite 0
      else
        let q = quantum x; r = of_int (round_half_even (x / q)) * q
        in if overflows r then NonFinite else Finite r)"

text \<open>
  The operators \<open>+\<close>, \<open>-\<close> and \<open>*\<close>: an operand that is not finite gives a result that is
  not finite. Division is used by the program with the literal divisor 2 only, so the
  divisor is a finite value here. Negation is exact.
\<close>

fun fadd :: "number \<Rightarrow> number \<Rightarrow> number" where
  "fadd (Finite x) (Finite y) = round_double (x + y)"
| "fadd a b = NonFinite"

fun fsub :: "number \<Rightarrow> number \<Rightarrow> number" where
  "fsub (Finite x) (Finite y) = round_double (x - y)"
| "fsub a b = NonFinite"

fun fmul :: "number \<Rightarrow> number \<Rightarrow> number" where
  "fmul (Finite x) (Finite y) = round_double (x * y)"
| "fmul a b = NonFinite"

fun fdiv :: "number \<Rightarrow> real \<Rightarrow> number" where
  "fdiv (Finite x) y = (if y = 0 then NonFinite else round_double (x / y))"
| "fdiv NonFinite y = NonFinite"

fun fneg :: "number \<Rightarrow> number" where
  "fneg (Finite x) = Finite (- x)"
| "fneg NonFinite = NonFinite"

section \<open>The component state and the effects of its handlers\<close>

text \<open>
  The component \<open>App\<close> of \<open>src/stube.jsx\<close> keeps its state in React state cells
  (\<open>useState\<close>, lines 15-23). A handler reads the values of the render it was created in and
  calls setters; the calls are collected in source order as a list of effects, and
  \<open>commit\<close> applies them to the state, later calls winning over earlier ones.
  \<open>Date.now()\<close> is an integer number of milliseconds and is passed in as \<open>now\<close>.
\<close>

datatype firestore = Firestore

text \<open>
  A leaderboard document as the store delivers it: \<open>doc.id\<close> and the fields of
  \<open>doc.data()\<close> that \<open>submitScore\<close> writes. An entry of the displayed list is
  \<open>{ id: doc.id, ...doc.data() }\<close>.
\<close>

record doc_data =
  data_userId :: string
  data_score :: int
  data_timestamp :: int

record snapshot_doc =
  doc_id :: string
  doc_fields :: doc_data

record entry =
  entry_id :: string
  entry_userId :: string
  entry_score :: int
  entry_timestamp :: int

record app_state =
  db :: "firestore option"
  userId :: "string option"
  isAuthReady :: bool
  leaderboardData :: "entry list"
  score :: int
  startTime :: "int option"
  isPlaying :: bool
  message :: string

datatype effect =
    SetScore int
  | SetStartTime int
  | SetIsPlaying bool
  | SetMessage string
  | SetLeaderboardData "entry list"
  | AddDoc string string int
  | ConsoleLog string
  | ConsoleError string

fun apply_effect :: "effect \<Rightarrow> app_state \<Rightarrow> app_state" where
  "apply_effect (SetScore v) s = s\<lparr>score := v\<rparr>"
| "apply_effect (SetStartTime t) s = s\<lparr>startTime := Some t\<rparr>"
| "apply_effect (SetIsPlaying b) s = s\<lparr>isPlaying := b\<rparr>"
| "apply_effect (SetMessage m) s = s\<lparr>message := m\<rparr>"
| "apply_effect (SetLeaderboardData d) s = s\<lparr>leaderboardData := d\<rparr>"
| "apply_effect (AddDoc p u v) s = s"
| "apply_effect (ConsoleLog m) s = s"
| "apply_effect (ConsoleError m) s = s"

fun commit :: "effect list \<Rightarrow> app_state \<Rightarrow> app_state" where
  "commit [] s = s"
| "commit (e # es) s = commit es (apply_effect e s)"

text \<open>The initial values of the state cells (lines 15-23).\<close>

definition initial_state :: app_state where
  "initial_state =
     \<lparr>db = None, userId = None, isAuthReady = False, leaderboardData = [],
      score = 0, startTime = None, isPlaying = False, message = ''''\<rparr>"

subsection \<open>Numbers in template literals\<close>

text \<open>
  A template literal \<open>${score}\<close> prints an integer in decimal, with a minus sign when it is
  negative.
\<close>

definition digit_char :: "nat \<Rightarrow> char" where
  "digit_char d = ''0123456789'' ! d"

fun digits :: "nat \<Rightarrow> string" where
  "digits n = (if n < 10 then [digit_char n] else digits (n div 10) @ [digit_char (n mod 10)])"

declare digits.simps [simp del]

definition number_to_string :: "int \<Rightarrow> string" where
  "number_to_string i = (if i < 0 then CHR ''-'' # digits (nat (- i)) else digits (nat i))"

subsection \<open>Truthiness\<close>

text \<open>
  \<open>if (startTime)\<close> is false for \<open>null\<close> and for the number 0; \<open>!userId\<close> is true for
  \<open>null\<close> and for the empty string; \<open>!db\<close> is true for \<open>null\<close> only.
\<close>

fun truthy_number :: "int option \<Rightarrow> bool" where
  "truthy_number None = False"
| "truthy_number (Some t) = (t \<noteq> 0)"

fun truthy_string :: "string option \<Rightarrow> bool" where
  "truthy_string None = False"
| "truthy_string (Some u) = (u \<noteq> [])"

fun truthy_object :: "'a option \<Rightarrow> bool" where
  "truthy_object None = False"
| "truthy_object (Some v) = True"

section \<open>Session controller: \<open>startGame\<close> and \<open>endGame\<close> (lines 110-126)\<close>

definition startGame :: "int \<Rightarrow> app_state \<Rightarrow> effect list" where
  "startGame now s =
     [SetScore 0, SetStartTime now, SetIsPlaying True,
      SetMessage ''Game started! Rotate the cube.'']"

definition timeElapsed :: "int \<Rightarrow> int \<Rightarrow> int" where
  "timeElapsed now t0 = \<lfloor>real_of_int (now - t0) / 1000\<rfloor>"

definition endGame :: "int \<Rightarrow> app_state \<Rightarrow> effect list" where
  "endGame now s =
     [SetIsPlaying False,
      SetMessage (''Game Over! Your score: '' @ number_to_string (score s)
                  @ ''. Submit to leaderboard!'')]
     @ (if truthy_number (startTime s)
        then [SetScore (timeElapsed now (the (startTime s)) * 10)]
        else [])"

section \<open>Leaderboard: submitting a score (lines 89-107)\<close>

text \<open>
  \<open>appId\<close> is the module constant of line 8. The outcome of the store's \<open>addDoc\<close> is
  an input: \<open>None\<close> when the write is accepted, \<open>Some m\<close> when it rejects with an error of
  message \<open>m\<close>.
\<close>

definition appId :: "string option \<Rightarrow> string" where
  "appId app_id = (case app_id of None \<Rightarrow> ''stube-cube-public-app'' | Some a \<Rightarrow> a)"

definition leaderboard_path :: "string option \<Rightarrow> string" where
  "leaderboard_path app_id = ''artifacts/'' @ appId app_id @ ''/public/data/leaderboard''"

definition submitScore :: "string option \<Rightarrow> string option \<Rightarrow> app_state \<Rightarrow> effect list" where
  "submitScore app_id rejects s =
     (if \<not> truthy_object (db s) \<or> \<not> truthy_string (userId s) \<or> score s = 0
      then [SetMessage ''Cannot submit score. Not authenticated or score is 0.'']
      else AddDoc (leaderboard_path app_id) (the (userId s)) (score s) #
           (case rejects of
              None \<Rightarrow> [SetMessage ''Score submitted successfully!'',
                        ConsoleLog (''Score submitted: '' @ number_to_string (score s))]
            | Some m \<Rightarrow> [ConsoleError (''Error submitting score: '' @ m),
                         SetMessage (''Failed to submit score: '' @ m)]))"

fun is_store_write :: "effect \<Rightarrow> bool" where
  "is_store_write (AddDoc p u v) = True"
| "is_store_write e = False"

fun is_message :: "effect \<Rightarrow> bool" where
  "is_message (SetMessage m) = True"
| "is_message e = False"

section \<open>Leaderboard: the snapshot listener (lines 66-86)\<close>

text \<open>
  \<open>Array.prototype.sort\<close> is the language's own: it sorts in place, puts \<open>a\<close> before
  \<open>b\<close> when the comparator is negative on \<open>(a, b)\<close>, and is stable. It is modelled by
  the stable insertion sort over a comparator; the comparator itself is the source's
  \<open>(a, b) => b.score - a.score\<close>.
\<close>

fun insert_by :: "('a \<Rightarrow> 'a \<Rightarrow> int) \<Rightarrow> 'a \<Rightarrow> 'a list \<Rightarrow> 'a list" where
  "insert_by cmp x [] = [x]"
| "insert_by cmp x (y # ys) =
     (if cmp x y \<le> 0 then x # y # ys else y # insert_by cmp x ys)"

fun array_sort :: "('a \<Rightarrow> 'a \<Rightarrow> int) \<Rightarrow> 'a list \<Rightarrow> 'a list" where
  "array_sort cmp [] = []"
| "array_sort cmp (x # xs) = insert_by cmp x (array_sort cmp xs)"

definition compare_score :: "entry \<Rightarrow> entry \<Rightarrow> int" where
  "compare_score a b = entry_score b - entry_score a"

definition to_entry :: "snapshot_doc \<Rightarrow> entry" where
  "to_entry d =
     \<lparr>entry_id = doc_id d, entry_userId = data_userId (doc_fields d),
      entry_score = data_score (doc_fields d),
      entry_timestamp = data_timestamp (doc_fields d)\<rparr>"

definition onSnapshot :: "snapshot_doc list \<Rightarrow> effect list" where
  "onSnapshot docs =
     (let data = array_sort compare_score (map to_entry docs)
      in [SetLeaderboardData data, ConsoleLog ''Leaderboard data updated:''])"

text \<open>The example snapshot of three documents with the scores 50, 90 and 90.\<close>

definition example_doc :: "string \<Rightarrow> int \<Rightarrow> snapshot_doc" where
  "example_doc i v =
     \<lparr>doc_id = i, doc_fields = \<lparr>data_userId = ''u'', data_score = v, data_timestamp = 1\<rparr>\<rparr>"

definition example_snapshot :: "snapshot_doc list" where
  "example_snapshot = [example_doc ''a'' 50, example_doc ''b'' 90, example_doc ''c'' 90]"

section \<open>Gesture tracker: the pointer handlers of the scene effect (lines 212-249)\<close>

text \<open>
  The handlers receive a DOM event. A \<open>MouseEvent\<close> has \<open>clientX\<close> and \<open>clientY\<close>
  and no \<open>touches\<close> property; a \<open>TouchEvent\<close> has the list \<open>touches\<close> and no
  \<open>clientX\<close> or \<open>clientY\<close>. A property that an event does not have reads as
  \<open>undefined\<close>, here \<open>None\<close>. The coordinates of an event are finite numbers and are
  given by their values; the angles of the cube group are numbers computed by the
  handlers, each sum, difference and product rounded to a double.
\<close>

datatype js_error = TypeError string | ReferenceError string

record touch =
  touch_clientX :: real
  touch_clientY :: real

record dom_event =
  clientX :: "real option"
  clientY :: "real option"
  touches :: "touch list option"

definition mouse_event :: "real \<Rightarrow> real \<Rightarrow> dom_event" where
  "mouse_event x y = \<lparr>clientX = Some x, clientY = Some y, touches = None\<rparr>"

definition touch_event :: "touch list \<Rightarrow> dom_event" where
  "touch_event ts = \<lparr>clientX = None, clientY = None, touches = Some ts\<rparr>"

text \<open>
  \<open>e.touches[0]\<close> followed by a property read: indexing \<open>undefined\<close> raises a
  \<open>TypeError\<close>, and so does reading a property of \<open>touches[0]\<close> when the list is empty.
\<close>

definition first_touch :: "dom_event \<Rightarrow> js_error + touch" where
  "first_touch e =
     (case touches e of
        None \<Rightarrow> Inl (TypeError ''e.touches is undefined'')
      | Some [] \<Rightarrow> Inl (TypeError ''e.touches[0] is undefined'')
      | Some (t # ts) \<Rightarrow> Inr t)"

text \<open>
  \<open>e.clientX || e.touches[0].clientX\<close>: the right operand is evaluated when the left one is
  falsy, that is \<open>undefined\<close> or the number 0.
\<close>

definition event_x :: "dom_event \<Rightarrow> js_error + real" where
  "event_x e =
     (case clientX e of
        Some x \<Rightarrow> if x \<noteq> 0 then Inr x else map_sum id touch_clientX (first_touch e)
      | None \<Rightarrow> map_sum id touch_clientX (first_touch e))"

definition event_y :: "dom_event \<Rightarrow> js_error + real" where
  "event_y e =
     (case clientY e of
        Some y \<Rightarrow> if y \<noteq> 0 then Inr y else map_sum id touch_clientY (first_touch e)
      | None \<Rightarrow> map_sum id touch_clientY (first_touch e))"

text \<open>
  The variables the handlers share: \<open>isDragging\<close>, \<open>previousMousePosition\<close> and the two
  rotation angles of the cube group (\<open>rotation.x\<close> is the pitch, \<open>rotation.y\<close> the yaw).
\<close>

record scene_state =
  isDragging :: bool
  previousMousePosition :: "real \<times> real"
  rotation_x :: number
  rotation_y :: number

definition initial_scene :: scene_state where
  "initial_scene =
     \<lparr>isDragging = False, previousMousePosition = (0, 0),
      rotation_x = Finite 0, rotation_y = Finite 0\<rparr>"

text \<open>
  A handler either returns or throws; in both cases the assignments made so far stay.
\<close>

datatype outcome = Returned scene_state | Threw js_error scene_state

fun state_of :: "outcome \<Rightarrow> scene_state" where
  "state_of (Returned st) = st"
| "state_of (Threw err st) = st"

fun thrown :: "outcome \<Rightarrow> js_error option" where
  "thrown (Returned st) = None"
| "thrown (Threw err st) = Some err"

text \<open>The literal \<open>0.005\<close> denotes the double nearest to it.\<close>

definition rotationSpeed :: number where
  "rotationSpeed = round_double 0.005"

definition onMouseDown :: "dom_event \<Rightarrow> scene_state \<Rightarrow> outcome" where
  "onMouseDown e st =
     (let st1 = st\<lparr>isDragging := True\<rparr> in
      case event_x e of
        Inl err \<Rightarrow> Threw err st1
      | Inr x \<Rightarrow>
          (case event_y e of
             Inl err \<Rightarrow> Threw err st1
           | Inr y \<Rightarrow> Returned (st1\<lparr>previousMousePosition := (x, y)\<rparr>)))"

definition onMouseMove :: "dom_event \<Rightarrow> scene_state \<Rightarrow> outcome" where
  "onMouseMove e st =
     (if \<not> isDragging st then Returned st
      else
        case event_x e of
          Inl err \<Rightarrow> Threw err st
        | Inr cx \<Rightarrow>
            (case event_y e of
               Inl err \<Rightarrow> Threw err st
             | Inr cy \<Rightarrow>
                 (let deltaMove =
                        (fsub (Finite cx) (Finite (fst (previousMousePosition st))),
                         fsub (Finite cy) (Finite (snd (previousMousePosition st))))
                  in Returned
                       (st\<lparr>rotation_y :=
                             fadd (rotation_y st) (fmul (fst deltaMove) rotationSpeed),
                           rotation_x :=
                             fadd (rotation_x st) (fmul (snd deltaMove) rotationSpeed),
                           previousMousePosition := (cx, cy)\<rparr>))))"

definition onMouseUp :: "scene_state \<Rightarrow> outcome" where
  "onMouseUp st = Returned (st\<lparr>isDragging := False\<rparr>)"

text \<open>
  The listeners registered on the container (lines 242-249). The release handler is
  registered without a parameter: it does not read the event it is called with.
\<close>

datatype event_type =
  Mousedown | Mousemove | Mouseup | Mouseleave | Touchstart | Touchmove | Touchend

fun dispatch :: "event_type \<Rightarrow> dom_event \<Rightarrow> scene_state \<Rightarrow> outcome" where
  "dispatch Mousedown e st = onMouseDown e st"
| "dispatch Mousemove e st = onMouseMove e st"
| "dispatch Mouseup e st = onMouseUp st"
| "dispatch Mouseleave e st = onMouseUp st"
| "dispatch Touchstart e st = onMouseDown e st"
| "dispatch Touchmove e st = onMouseMove e st"
| "dispatch Touchend e st = onMouseUp st"

text \<open>
  A sequence of events: an exception of a listener is reported by the browser and the next
  event is dispatched on the variables as the listener left them.
\<close>

fun run :: "(event_type \<times> dom_event) list \<Rightarrow> scene_state \<Rightarrow> scene_state" where
  "run [] st = st"
| "run ((t, e) # es) st = run es (state_of (dispatch t e st))"




text \<open>
  The pointer position a handler reads from an event, when both reads succeed, and the
  position of the last sample of a sequence of move events (\<open>p0\<close> when there is none).
\<close>

definition sample :: "dom_event \<Rightarrow> (real \<times> real) option" where
  "sample e =
     (case (event_x e, event_y e) of
        (Inr x, Inr y) \<Rightarrow> Some (x, y)
      | _ \<Rightarrow> None)"






section \<open>Geometry builder: the cubelet construction loop (lines 140-180)\<close>

text \<open>
  \<open>for (let i = lo; i < hi; i++) body\<close>, with the variables the body updates passed through
  as \<open>acc\<close>.
\<close>

function for_loop :: "nat \<Rightarrow> nat \<Rightarrow> (nat \<Rightarrow> 'a \<Rightarrow> 'a) \<Rightarrow> 'a \<Rightarrow> 'a" where
  "for_loop i n body acc = (if i < n then for_loop (Suc i) n body (body i acc) else acc)"
  by pat_completeness auto
termination
  by (relation "measure (\<lambda>(i, n, body, acc). n - i)") auto

declare for_loop.simps [simp del]

text \<open>A material is a \<open>MeshPhongMaterial\<close> of a colour (the colour as a number).\<close>

datatype material = MeshPhongMaterial nat

definition lemonYellow :: material where "lemonYellow = MeshPhongMaterial 16774912"
definition limeGreen :: material where "limeGreen = MeshPhongMaterial 3329330"
definition babyBlue :: material where "babyBlue = MeshPhongMaterial 9031664"
definition black :: material where "black = MeshPhongMaterial 1710618"

text \<open>
  A mesh: the three dimensions of its \<open>BoxGeometry\<close>, the materials of its six faces and
  its position, all numbers as the loop computes them.
\<close>

record mesh =
  geometry :: "number \<times> number \<times> number"
  materials :: "material list"
  position :: "number \<times> number \<times> number"

definition totalCubeDim :: "number \<Rightarrow> number \<Rightarrow> number" where
  "totalCubeDim cubeSize gap = fsub (fmul (fadd cubeSize gap) (Finite 3)) gap"

definition startPos :: "number \<Rightarrow> number \<Rightarrow> number" where
  "startPos cubeSize gap =
     fadd (fdiv (fneg (totalCubeDim cubeSize gap)) 2) (fdiv cubeSize 2)"

definition cubelet :: "number \<Rightarrow> number \<Rightarrow> nat \<Rightarrow> nat \<Rightarrow> nat \<Rightarrow> mesh" where
  "cubelet cubeSize gap x y z =
     \<lparr>geometry = (cubeSize, cubeSize, cubeSize),
      materials = [babyBlue, babyBlue, lemonYellow, lemonYellow, limeGreen, limeGreen],
      position = (fadd (startPos cubeSize gap) (fmul (Finite (real x)) (fadd cubeSize gap)),
                  fadd (startPos cubeSize gap) (fmul (Finite (real y)) (fadd cubeSize gap)),
                  fadd (startPos cubeSize gap) (fmul (Finite (real z)) (fadd cubeSize gap)))\<rparr>"

text \<open>The three nested loops, each cubelet pushed at the end of the array \<open>cubelets\<close>.\<close>

definition build_cubelets :: "number \<Rightarrow> number \<Rightarrow> mesh list" where
  "build_cubelets cubeSize gap =
     for_loop 0 3 (\<lambda>x.
       for_loop 0 3 (\<lambda>y.
         for_loop 0 3 (\<lambda>z cubelets. cubelets @ [cubelet cubeSize gap x y z]))) []"

text \<open>
  The scene is built with the constants of lines 147 and 148; the literal \<open>0.05\<close> denotes
  the double nearest to it.
\<close>

definition cubeSize :: number where "cubeSize = Finite 1"
definition gap :: number where "gap = round_double 0.05"

definition cubelets :: "mesh list" where
  "cubelets = build_cubelets cubeSize gap"

text \<open>
  The centre of a mesh as a point of space, when its three coordinates are finite; the
  point mirrored at the origin, the sum of two points and the distance of two points.
\<close>

definition centre :: "mesh \<Rightarrow> (real \<times> real \<times> real) option" where
  "centre m =
     (case position m of
        (Finite a, Finite b, Finite c) \<Rightarrow> Some (a, b, c)
      | _ \<Rightarrow> None)"

fun mirror :: "real \<times> real \<times> real \<Rightarrow> real \<times> real \<times> real" where
  "mirror (a, b, c) = (- a, - b, - c)"

fun plus3 :: "real \<times> real \<times> real \<Rightarrow> real \<times> real \<times> real \<Rightarrow> real \<times> real \<times> real" where
  "plus3 (a, b, c) (a', b', c') = (a + a', b + b', c + c')"

fun distance_sq :: "real \<times> real \<times> real \<Rightarrow> real \<times> real \<times> real \<Rightarrow> real" where
  "distance_sq (a, b, c) (a', b', c') = (a - a')\<^sup>2 + (b - b')\<^sup>2 + (c - c')\<^sup>2"

definition distance :: "real \<times> real \<times> real \<Rightarrow> real \<times> real \<times> real \<Rightarrow> real" where
  "distance p q = sqrt (distance_sq p q)"

text \<open>
  The place of grid coordinate \<open>i\<close> on an axis as the specification gives it,
  \<open>start + i * (s + g)\<close> with \<open>start = -((s + g) * 3 - g) / 2 + s / 2\<close>, every operation
  rounded to a double; and the grid coordinates of the cubelet pushed as number \<open>n\<close>.
\<close>

definition axis_position :: "number \<Rightarrow> number \<Rightarrow> nat \<Rightarrow> number" where
  "axis_position s g i =
     fadd (fadd (fdiv (fneg (fsub (fmul (fadd s g) (Finite 3)) g)) 2) (fdiv s 2))
          (fmul (Finite (real i)) (fadd s g))"

definition grid_of :: "nat \<Rightarrow> nat \<times> nat \<times> nat" where
  "grid_of n = (n div 9, (n div 3) mod 3, n mod 3)"

text \<open>
  The value of the double nearest to 1.05, which is \<open>1 + 0.05\<close> in doubles, and the
  centres of a grid of that spacing shifted by \<open>- 2 ^ -52\<close> on every axis.
\<close>

definition spacing :: real where
  "spacing = 4728779608739021 / 4503599627370496"

definition shifted_axis :: "nat \<Rightarrow> real" where
  "shifted_axis i = (real i - 1) * spacing - 1 / 4503599627370496"

definition shifted_grid :: "nat \<Rightarrow> real \<times> real \<times> real" where
  "shifted_grid n =
     (case grid_of n of (x, y, z) \<Rightarrow> (shifted_axis x, shifted_axis y, shifted_axis z))"

section \<open>Scene host: the cleanup function of the scene effect (lines 252-266)\<close>

text \<open>
  The cleanup function is a closure created in the body of the scene effect. Each of its
  statements reads identifiers and then acts on the objects they name. An identifier is
  resolved in the scopes that enclose the closure: the body of the effect callback, the
  body of the component, the module, and the global object. A \<open>const\<close> or \<open>let\<close> of a
  loop body is local to that block and is not among them. Reading an identifier that
  resolves nowhere throws a \<open>ReferenceError\<close>, and the rest of the function does not run.
\<close>

datatype teardown_effect =
    RemoveEventListener string string string
  | RemoveChild
  | RendererDispose
  | GeometryDispose
  | MaterialsDispose
  | SceneClear

text \<open>The names declared by the module (lines 1-12).\<close>

definition module_scope :: "string list" where
  "module_scope =
     [''React'', ''useRef'', ''useEffect'', ''useState'', ''useCallback'', ''THREE'',
      ''initializeApp'', ''getAuth'', ''signInAnonymously'', ''signInWithCustomToken'',
      ''onAuthStateChanged'', ''getFirestore'', ''collection'', ''onSnapshot'', ''query'',
      ''orderBy'', ''limit'', ''addDoc'', ''serverTimestamp'',
      ''appId'', ''firebaseConfig'', ''initialAuthToken'', ''App'']"

text \<open>The names declared in the body of the component (lines 13-23, 89-126).\<close>

definition component_scope :: "string list" where
  "component_scope =
     [''mountRef'', ''cubeGroupRef'', ''db'', ''setDb'', ''auth'', ''setAuth'',
      ''userId'', ''setUserId'', ''isAuthReady'', ''setIsAuthReady'',
      ''leaderboardData'', ''setLeaderboardData'', ''score'', ''setScore'',
      ''startTime'', ''setStartTime'', ''isPlaying'', ''setIsPlaying'',
      ''message'', ''setMessage'', ''submitScore'', ''startGame'', ''endGame'']"

text \<open>
  The names declared directly in the body of the scene effect (lines 130-238), and the
  names declared inside the three loops (lines 153-169).
\<close>

definition scene_effect_scope :: "string list" where
  "scene_effect_scope =
     [''currentMount'', ''scene'', ''camera'', ''renderer'',
      ''lemonYellow'', ''limeGreen'', ''babyBlue'', ''black'',
      ''cubeSize'', ''gap'', ''totalCubeDim'', ''startPos'', ''cubelets'',
      ''ambientLight'', ''directionalLight'', ''animate'', ''handleResize'',
      ''isDragging'', ''previousMousePosition'',
      ''onMouseDown'', ''onMouseMove'', ''onMouseUp'']"

definition loop_body_scope :: "string list" where
  "loop_body_scope = [''x'', ''y'', ''z'', ''geometry'', ''materials'', ''cubelet'']"

text \<open>The properties of the global object that the file uses.\<close>

definition global_scope :: "string list" where
  "global_scope =
     [''window'', ''console'', ''Date'', ''Math'', ''JSON'', ''requestAnimationFrame'']"

definition cleanup_scope :: "string list" where
  "cleanup_scope = scene_effect_scope @ component_scope @ module_scope @ global_scope"

text \<open>
  The statements of the cleanup function in source order, each with the identifiers it
  reads, in the order it reads them.
\<close>

definition cleanup_body :: "(string list \<times> teardown_effect) list" where
  "cleanup_body =
     [([''window'', ''handleResize''],
         RemoveEventListener ''window'' ''resize'' ''handleResize''),
      ([''currentMount'', ''onMouseDown''],
         RemoveEventListener ''currentMount'' ''mousedown'' ''onMouseDown''),
      ([''currentMount'', ''onMouseMove''],
         RemoveEventListener ''currentMount'' ''mousemove'' ''onMouseMove''),
      ([''currentMount'', ''onMouseUp''],
         RemoveEventListener ''currentMount'' ''mouseup'' ''onMouseUp''),
      ([''currentMount'', ''onMouseUp''],
         RemoveEventListener ''currentMount'' ''mouseleave'' ''onMouseUp''),
      ([''currentMount'', ''onMouseDown''],
         RemoveEventListener ''currentMount'' ''touchstart'' ''onMouseDown''),
      ([''currentMount'', ''onMouseMove''],
         RemoveEventListener ''currentMount'' ''touchmove'' ''onMouseMove''),
      ([''currentMount'', ''onMouseUp''],
         RemoveEventListener ''currentMount'' ''touchend'' ''onMouseUp''),
      ([''currentMount'', ''renderer''], RemoveChild),
      ([''renderer''], RendererDispose),
      ([''geometry''], GeometryDispose),
      ([''materials''], MaterialsDispose),
      ([''scene''], SceneClear)]"

text \<open>The listeners the effect registers (lines 210 and 242-249).\<close>

definition registered_listeners :: "teardown_effect list" where
  "registered_listeners =
     [RemoveEventListener ''window'' ''resize'' ''handleResize'',
      RemoveEventListener ''currentMount'' ''mousedown'' ''onMouseDown'',
      RemoveEventListener ''currentMount'' ''mousemove'' ''onMouseMove'',
      RemoveEventListener ''currentMount'' ''mouseup'' ''onMouseUp'',
      RemoveEventListener ''currentMount'' ''mouseleave'' ''onMouseUp'',
      RemoveEventListener ''currentMount'' ''touchstart'' ''onMouseDown'',
      RemoveEventListener ''currentMount'' ''touchmove'' ''onMouseMove'',
      RemoveEventListener ''currentMount'' ''touchend'' ''onMouseUp'']"

fun first_unbound :: "string list \<Rightarrow> string list \<Rightarrow> string option" where
  "first_unbound scope [] = None"
| "first_unbound scope (v # vs) =
     (if v \<in> set scope then first_unbound scope vs else Some v)"

text \<open>
  Running the statements: the effects performed so far are collected in \<open>trace\<close>; the
  result is the trace and the error thrown, if any.
\<close>

fun run_cleanup ::
  "string list \<Rightarrow> (string list \<times> teardown_effect) list \<Rightarrow> teardown_effect list
     \<Rightarrow> teardown_effect list \<times> js_error option" where
  "run_cleanup scope [] trace = (trace, None)"
| "run_cleanup scope ((ids, eff) # rest) trace =
     (case first_unbound scope ids of
        Some v \<Rightarrow> (trace, Some (ReferenceError (v @ '' is not defined'')))
      | None \<Rightarrow> run_cleanup scope rest (trace @ [eff]))"

definition cleanup :: "teardown_effect list \<times> js_error option" where
  "cleanup = run_cleanup cleanup_scope cleanup_body []"

fun is_graphics_release :: "teardown_effect \<Rightarrow> bool" where
  "is_graphics_release (RemoveEventListener t e h) = False"
| "is_graphics_release eff = True"

section \<open>Properties of the number model\<close>






text \<open>Facts that evaluate a rounding on concrete numerals.\<close>

lemmas eval_double = round_double_def quantum_def overflows_def exponent_def
  round_half_even_def Let_def compute_floorlog power_int_minus

lemma rotationSpeed_value:
  "rotationSpeed = Finite (5764607523034235 / 1152921504606846976)"
  unfolding rotationSpeed_def by (simp add: eval_double)





section \<open>Properties of the session controller\<close>

lemma floor_ms: "\<lfloor>real_of_int a / 1000\<rfloor> = a div 1000"
  using floor_divide_of_int_eq [of a 1000] by simp

lemma number_to_string_0: "number_to_string 0 = ''0''"
  by (simp add: number_to_string_def digits.simps digit_char_def)

text \<open>
  C3. When the game is ended and a start time \<open>t0\<close> is recorded (a time stamp of
  \<open>Date.now()\<close>, which the guard \<open>if (startTime)\<close> accepts when it is not the number 0), the
  score committed by \<open>endGame\<close> is \<open>floor((now - t0) / 1000) * 10\<close>; a game started by
  \<open>startGame\<close> at \<open>t0\<close> and ended 7400 ms later gets the score 70.
\<close>

theorem endGame_score:
  assumes "startTime s = Some t0" and "t0 \<noteq> 0"
  shows "score (commit (endGame now s) s) = \<lfloor>real_of_int (now - t0) / 1000\<rfloor> * 10
       \<and> score (commit (endGame (t0 + 7400) (commit (startGame t0 s') s'))
                         (commit (startGame t0 s') s')) = 70"
  using assms by (simp add: endGame_def startGame_def timeElapsed_def floor_ms)

theorem endGame_score_witness:
  "startTime (initial_state\<lparr>startTime := Some 1000, isPlaying := True\<rparr>) = Some 1000
   \<and> (1000::int) \<noteq> 0
   \<and> score (commit (endGame 8400 (initial_state\<lparr>startTime := Some 1000, isPlaying := True\<rparr>))
                     (initial_state\<lparr>startTime := Some 1000, isPlaying := True\<rparr>)) = 70"
proof -
  let ?s = "initial_state\<lparr>startTime := Some 1000, isPlaying := True\<rparr>"
  have h1: "startTime ?s = Some 1000" by simp
  have h2: "(1000::int) \<noteq> 0" by simp
  from endGame_score [OF h1 h2, of 8400 initial_state]
  have "score (commit (endGame 8400 ?s) ?s) = \<lfloor>real_of_int (8400 - 1000) / 1000\<rfloor> * 10"
    by blast
  then show ?thesis by (simp add: floor_ms)
qed

text \<open>
  C7. From every prior state, idle or playing, \<open>startGame\<close> sets the score to 0, records the
  current time as the start time and sets the playing flag (and replaces the status message);
  nothing else changes.
\<close>

theorem startGame_resets:
  "score (commit (startGame now s) s) = 0
   \<and> startTime (commit (startGame now s) s) = Some now
   \<and> isPlaying (commit (startGame now s) s) = True
   \<and> commit (startGame now s) s =
       s\<lparr>score := 0, startTime := Some now, isPlaying := True,
         message := ''Game started! Rotate the cube.''\<rparr>"
  by (simp add: startGame_def)

text \<open>
  C8, as stated, fails: ending in the initial idle state (no start time) replaces the status
  message, which is user-visible state.
\<close>

theorem endGame_idle_counterexample:
  "startTime initial_state = None \<and> isPlaying initial_state = False
   \<and> message initial_state = ''''
   \<and> message (commit (endGame 5000 initial_state) initial_state)
       = ''Game Over! Your score: 0. Submit to leaderboard!''
   \<and> commit (endGame 5000 initial_state) initial_state \<noteq> initial_state"
proof -
  have m: "message (commit (endGame 5000 initial_state) initial_state)
       = ''Game Over! Your score: 0. Submit to leaderboard!''"
    by (simp add: endGame_def initial_state_def number_to_string_0)
  have "message initial_state = ''''" by (simp add: initial_state_def)
  with m have "commit (endGame 5000 initial_state) initial_state \<noteq> initial_state"
    by auto
  with m show ?thesis by (simp add: initial_state_def)
qed

text \<open>
  C8, amended. Ending while idle with no start time recorded leaves the score, the start time
  and the playing flag as they were; the only change is that the status message becomes
  the game-over text, which shows the current score.
\<close>

theorem endGame_idle:
  assumes "startTime s = None" and "\<not> isPlaying s"
  shows "commit (endGame now s) s =
           s\<lparr>message := ''Game Over! Your score: '' @ number_to_string (score s)
                         @ ''. Submit to leaderboard!''\<rparr>"
  using assms by (simp add: endGame_def)

theorem endGame_idle_witness:
  "startTime initial_state = None \<and> \<not> isPlaying initial_state
   \<and> commit (endGame 5000 initial_state) initial_state =
       initial_state\<lparr>message := ''Game Over! Your score: 0. Submit to leaderboard!''\<rparr>"
proof -
  have h1: "startTime initial_state = None" by (simp add: initial_state_def)
  have h2: "\<not> isPlaying initial_state" by (simp add: initial_state_def)
  have "score initial_state = 0" by (simp add: initial_state_def)
  with endGame_idle [OF h1 h2, of 5000] h1 h2 show ?thesis
    by (simp add: number_to_string_0)
qed

text \<open>
  C10. \<open>endGame\<close> first sets the playing flag, then the game-over message with the score of
  the state it was called in, and only then the newly derived score. For a game begun by
  \<open>startGame\<close> the message therefore always shows 0, whatever score is derived.
\<close>

theorem endGame_message_stale:
  assumes "startTime s = Some t0" and "t0 \<noteq> 0"
  shows "endGame now s =
           [SetIsPlaying False,
            SetMessage (''Game Over! Your score: '' @ number_to_string (score s)
                        @ ''. Submit to leaderboard!''),
            SetScore (\<lfloor>real_of_int (now - t0) / 1000\<rfloor> * 10)]
       \<and> endGame now (commit (startGame t0 s') s') =
           [SetIsPlaying False,
            SetMessage ''Game Over! Your score: 0. Submit to leaderboard!'',
            SetScore (\<lfloor>real_of_int (now - t0) / 1000\<rfloor> * 10)]"
  using assms by (simp add: endGame_def startGame_def timeElapsed_def number_to_string_0)

theorem endGame_message_stale_witness:
  "endGame 8400 (commit (startGame 1000 initial_state) initial_state) =
     [SetIsPlaying False,
      SetMessage ''Game Over! Your score: 0. Submit to leaderboard!'',
      SetScore 70]"
proof -
  let ?s = "commit (startGame 1000 initial_state) initial_state"
  have h1: "startTime ?s = Some 1000" by (simp add: startGame_def)
  have h2: "(1000::int) \<noteq> 0" by simp
  from endGame_message_stale [OF h1 h2, of 8400 initial_state]
  have "endGame 8400 ?s =
     [SetIsPlaying False,
      SetMessage ''Game Over! Your score: 0. Submit to leaderboard!'',
      SetScore (\<lfloor>real_of_int (8400 - 1000) / 1000\<rfloor> * 10)]"
    by blast
  then show ?thesis by (simp add: floor_ms)
qed

section \<open>Properties of score submission\<close>

lemma submitScore_writes:
  "db s = Some d \<Longrightarrow> userId s = Some u \<Longrightarrow> u \<noteq> [] \<Longrightarrow> score s \<noteq> 0 \<Longrightarrow>
   hd (submitScore app_id rejects s) = AddDoc (leaderboard_path app_id) u (score s)"
  by (simp add: submitScore_def)

text \<open>
  C4. When the identity is absent or the score is 0, \<open>submitScore\<close> does nothing but set the
  status message: there is no store write among its effects, and a message is produced.
  The score alone decides when it is 0, whatever the identity.
\<close>

theorem submitScore_rejected:
  assumes "userId s = None \<or> score s = 0"
  shows "submitScore app_id rejects s =
           [SetMessage ''Cannot submit score. Not authenticated or score is 0.'']
       \<and> filter is_store_write (submitScore app_id rejects s) = []
       \<and> filter is_message (submitScore app_id rejects s) \<noteq> []"
  using assms by (auto simp add: submitScore_def)

theorem submitScore_rejected_witness:
  "submitScore None None
     (initial_state\<lparr>db := Some Firestore, userId := Some ''u1'', score := 0\<rparr>) =
     [SetMessage ''Cannot submit score. Not authenticated or score is 0.'']
   \<and> submitScore None None
     (initial_state\<lparr>db := Some Firestore, userId := None, score := 70\<rparr>) =
     [SetMessage ''Cannot submit score. Not authenticated or score is 0.'']"
proof -
  let ?a = "initial_state\<lparr>db := Some Firestore, userId := Some ''u1'', score := 0\<rparr>"
  let ?b = "initial_state\<lparr>db := Some Firestore, userId := None, score := 70\<rparr>"
  have ha: "userId ?a = None \<or> score ?a = 0" by simp
  have hb: "userId ?b = None \<or> score ?b = 0" by simp
  from submitScore_rejected [OF ha, of None None] submitScore_rejected [OF hb, of None None]
  show ?thesis by blast
qed

section \<open>Properties of the leaderboard listener\<close>

lemma mset_insert_by: "mset (insert_by cmp x ys) = add_mset x (mset ys)"
  by (induction ys) auto

lemma mset_array_sort: "mset (array_sort cmp xs) = mset xs"
  by (induction xs) (auto simp: mset_insert_by)

lemma set_insert_by: "set (insert_by cmp x ys) = insert x (set ys)"
  by (induction ys) auto

lemma sorted_insert_by_score:
  "sorted_wrt (\<lambda>a b. entry_score b \<le> entry_score a) ys \<Longrightarrow>
   sorted_wrt (\<lambda>a b. entry_score b \<le> entry_score a) (insert_by compare_score x ys)"
  by (induction ys) (auto simp: set_insert_by compare_score_def)

lemma sorted_array_sort_score:
  "sorted_wrt (\<lambda>a b. entry_score b \<le> entry_score a) (array_sort compare_score xs)"
  by (induction xs) (auto simp: sorted_insert_by_score)

text \<open>
  An inserted entry only moves past entries of strictly greater score, so the entries of
  any one score keep their order.
\<close>

lemma filter_insert_by_score:
  "filter (\<lambda>e. entry_score e = v) (insert_by compare_score x ys) =
     (if entry_score x = v then x # filter (\<lambda>e. entry_score e = v) ys
      else filter (\<lambda>e. entry_score e = v) ys)"
  by (induction ys) (auto simp: compare_score_def)

lemma filter_array_sort_score:
  "filter (\<lambda>e. entry_score e = v) (array_sort compare_score xs) =
   filter (\<lambda>e. entry_score e = v) xs"
  by (induction xs) (auto simp: filter_insert_by_score)

lemma leaderboardData_onSnapshot:
  "leaderboardData (commit (onSnapshot docs) s) = array_sort compare_score (map to_entry docs)"
  by (simp add: onSnapshot_def)

text \<open>
  C5. The list the snapshot listener stores for display is a permutation of the snapshot's
  entries, is sorted by descending score, and keeps the entries of each score in the order
  they had in the snapshot. The snapshot with the scores 50, 90, 90 (documents a, b, c) is
  displayed as 90, 90, 50 (documents b, c, a).
\<close>

theorem leaderboard_sorted_stable:
  "mset (leaderboardData (commit (onSnapshot docs) s)) = mset (map to_entry docs)
   \<and> length (leaderboardData (commit (onSnapshot docs) s)) = length docs
   \<and> sorted_wrt (\<lambda>a b. entry_score b \<le> entry_score a)
        (leaderboardData (commit (onSnapshot docs) s))
   \<and> filter (\<lambda>e. entry_score e = v) (leaderboardData (commit (onSnapshot docs) s))
       = filter (\<lambda>e. entry_score e = v) (map to_entry docs)
   \<and> map entry_score (leaderboardData (commit (onSnapshot example_snapshot) s)) = [90, 90, 50]
   \<and> map entry_id (leaderboardData (commit (onSnapshot example_snapshot) s))
       = [''b'', ''c'', ''a'']"
proof -
  have "length (array_sort compare_score (map to_entry docs)) = length docs"
    using mset_array_sort [of compare_score "map to_entry docs"]
    by (metis length_map size_mset)
  moreover have "map entry_score (array_sort compare_score (map to_entry example_snapshot))
      = [90, 90, 50]"
    by (simp add: example_snapshot_def example_doc_def to_entry_def compare_score_def)
  moreover have "map entry_id (array_sort compare_score (map to_entry example_snapshot))
      = [''b'', ''c'', ''a'']"
    by (simp add: example_snapshot_def example_doc_def to_entry_def compare_score_def)
  ultimately show ?thesis
    by (simp add: leaderboardData_onSnapshot mset_array_sort sorted_array_sort_score
        filter_array_sort_score)
qed

section \<open>Properties of the gesture tracker\<close>



lemma sample_touch_event:
  "sample (touch_event (t # ts)) = Some (touch_clientX t, touch_clientY t)"
  by (simp add: sample_def event_x_def event_y_def touch_event_def first_touch_def)










text \<open>
  A press that faults keeps the flag it has already set and the old origin: the first move
  after a mouse press at x = 0 is measured from the origin left by the drag before (here the
  initial (0, 0)), so the pitch turns by the double 0.3 for a move of 10 pixels.
\<close>

lemma press_fault_stale_origin:
  "rotation_x (run [(Mousedown, mouse_event 0 50), (Mousemove, mouse_event 10 60),
                     (Mouseup, mouse_event 10 60)] initial_scene)
     = Finite (5404319552844595 / 18014398509481984)"
  by (simp add: initial_scene_def onMouseDown_def onMouseMove_def onMouseUp_def event_x_def
      event_y_def mouse_event_def first_touch_def rotationSpeed_value eval_double)

text \<open>
  C9. The press handler, and the move handler during a drag, throw a \<open>TypeError\<close> on a mouse
  event exactly when \<open>clientX\<close> or \<open>clientY\<close> is 0 (the read falls through to
  \<open>e.touches\<close>, which a mouse event does not have), and on a touch event exactly when the
  list of touches is empty; a touch coordinate 0 is read as it is. The press handler has
  set \<open>isDragging\<close> before it throws.
\<close>

theorem handlers_fault_on_zero:
  "thrown (onMouseDown (mouse_event x y) st)
     = (if x = 0 \<or> y = 0 then Some (TypeError ''e.touches is undefined'') else None)
   \<and> thrown (onMouseDown (touch_event ts) st)
     = (if ts = [] then Some (TypeError ''e.touches[0] is undefined'') else None)
   \<and> isDragging (state_of (onMouseDown (mouse_event x y) st))
   \<and> (isDragging st \<longrightarrow>
        thrown (onMouseMove (mouse_event x y) st)
          = (if x = 0 \<or> y = 0 then Some (TypeError ''e.touches is undefined'') else None)
      \<and> thrown (onMouseMove (touch_event ts) st)
          = (if ts = [] then Some (TypeError ''e.touches[0] is undefined'') else None))
   \<and> (x = 0 \<or> y = 0 \<longrightarrow>
        state_of (onMouseDown (mouse_event x y) st) = st\<lparr>isDragging := True\<rparr>
      \<and> state_of (onMouseMove (mouse_event x y) st) = st)"
  by (cases ts)
     (auto simp add: onMouseDown_def onMouseMove_def event_x_def event_y_def mouse_event_def
       touch_event_def first_touch_def)

theorem handlers_fault_on_zero_witness:
  "thrown (onMouseDown (mouse_event 0 50) initial_scene)
     = Some (TypeError ''e.touches is undefined'')
   \<and> isDragging (initial_scene\<lparr>isDragging := True\<rparr>)
   \<and> thrown (onMouseMove (mouse_event 50 0) (initial_scene\<lparr>isDragging := True\<rparr>))
     = Some (TypeError ''e.touches is undefined'')
   \<and> thrown (onMouseMove (touch_event [\<lparr>touch_clientX = 0, touch_clientY = 0\<rparr>])
               (initial_scene\<lparr>isDragging := True\<rparr>)) = None"
proof -
  have d: "isDragging (initial_scene\<lparr>isDragging := True\<rparr>)" by simp
  from handlers_fault_on_zero [of 0 50 initial_scene "[]"]
  have a: "thrown (onMouseDown (mouse_event 0 50) initial_scene)
     = Some (TypeError ''e.touches is undefined'')" by simp
  from handlers_fault_on_zero [of 50 0 "initial_scene\<lparr>isDragging := True\<rparr>"
      "[\<lparr>touch_clientX = 0, touch_clientY = 0\<rparr>]"] d
  have "thrown (onMouseMove (mouse_event 50 0) (initial_scene\<lparr>isDragging := True\<rparr>))
     = Some (TypeError ''e.touches is undefined'')
   \<and> thrown (onMouseMove (touch_event [\<lparr>touch_clientX = 0, touch_clientY = 0\<rparr>])
               (initial_scene\<lparr>isDragging := True\<rparr>)) = None" by simp
  with a d show ?thesis by simp
qed

section \<open>Properties of the geometry builder\<close>

lemma build_cubelets_unfold:
  "build_cubelets s g =
     map (\<lambda>n. cubelet s g (n div 9) ((n div 3) mod 3) (n mod 3)) [0..<27]"
  by (simp add: build_cubelets_def for_loop.simps upt_rec numeral_2_eq_2)

lemma length_build_cubelets: "length (build_cubelets s g) = 27"
  by (simp add: build_cubelets_unfold)

lemma nth_build_cubelets:
  "n < 27 \<Longrightarrow>
   build_cubelets s g ! n = cubelet s g (n div 9) ((n div 3) mod 3) (n mod 3)"
  unfolding build_cubelets_unfold by (simp del: upt_Suc)

lemma position_nth:
  "n < 27 \<Longrightarrow>
   position (build_cubelets s g ! n) =
     (axis_position s g (n div 9), axis_position s g ((n div 3) mod 3),
      axis_position s g (n mod 3))"
  by (simp add: nth_build_cubelets cubelet_def startPos_def totalCubeDim_def
      axis_position_def)

text \<open>Facts about the 27 indices, checked index by index.\<close>

lemma below_27: "n < 27 \<Longrightarrow> n \<in> set [0..<27]"
  by simp

lemma grid_of_index_all:
  "list_all (\<lambda>x. list_all (\<lambda>y. list_all (\<lambda>z.
      9 * x + 3 * y + z < 27 \<and> grid_of (9 * x + 3 * y + z) = (x, y, z))
    [0..<3]) [0..<3]) [0..<3]"
  by code_simp

lemma grid_of_index:
  assumes "x < 3" and "y < 3" and "z < 3"
  shows "9 * x + 3 * y + z < 27 \<and> grid_of (9 * x + 3 * y + z) = (x, y, z)"
proof -
  have "x \<in> set [0..<3]" and "y \<in> set [0..<3]" and "z \<in> set [0..<3]"
    using assms by simp_all
  with grid_of_index_all show ?thesis
    unfolding list_all_iff by blast
qed

lemma grid_of_mirror_all:
  "list_all (\<lambda>n. grid_of (26 - n) = (2 - n div 9, 2 - (n div 3) mod 3, 2 - n mod 3)
      \<and> n div 9 \<le> 2 \<and> (n div 3) mod 3 \<le> 2 \<and> n mod 3 \<le> 2) [0..<27]"
  by code_simp

lemma grid_of_mirror:
  assumes "n < 27"
  shows "grid_of (26 - n) = (2 - n div 9, 2 - (n div 3) mod 3, 2 - n mod 3)
      \<and> n div 9 \<le> 2 \<and> (n div 3) mod 3 \<le> 2 \<and> n mod 3 \<le> 2"
  using grid_of_mirror_all below_27 [OF assms] unfolding list_all_iff by blast

text \<open>The numbers the loop computes from the constants 1 and 0.05.\<close>

lemma gap_value: "gap = Finite (3602879701896397 / 72057594037927936)"
  unfolding gap_def by (simp add: eval_double)

lemma spacing_value: "fadd cubeSize gap = Finite spacing"
  by (simp add: cubeSize_def gap_value spacing_def eval_double)

lemma axis_position_0: "axis_position cubeSize gap 0 = Finite (shifted_axis 0)"
  by (simp add: axis_position_def cubeSize_def gap_value shifted_axis_def spacing_def
      eval_double)

lemma axis_position_1: "axis_position cubeSize gap 1 = Finite (shifted_axis 1)"
  by (simp add: axis_position_def cubeSize_def gap_value shifted_axis_def spacing_def
      eval_double)

lemma axis_position_2: "axis_position cubeSize gap 2 = Finite (shifted_axis 2)"
  by (simp add: axis_position_def cubeSize_def gap_value shifted_axis_def spacing_def
      eval_double)

lemma axis_position_constants:
  assumes "i \<le> 2"
  shows "axis_position cubeSize gap i = Finite (shifted_axis i)"
proof -
  from assms have "i = 0 \<or> i = 1 \<or> i = 2" by auto
  then show ?thesis
    using axis_position_0 axis_position_1 axis_position_2 by auto
qed

lemma centre_nth:
  assumes "n < 27"
  shows "centre (cubelets ! n) = Some (shifted_grid n)"
proof -
  from grid_of_mirror [OF assms]
  have x: "n div 9 \<le> 2" and y: "(n div 3) mod 3 \<le> 2" and z: "n mod 3 \<le> 2"
    by simp_all
  show ?thesis
    unfolding cubelets_def centre_def position_nth [OF assms]
    by (simp add: axis_position_constants [OF x] axis_position_constants [OF y]
        axis_position_constants [OF z] shifted_grid_def grid_of_def)
qed

lemma shifted_axis_mirror:
  "i \<le> 2 \<Longrightarrow> shifted_axis i + shifted_axis (2 - i) = - (1 / 2251799813685248)"
  by (simp add: shifted_axis_def of_nat_diff algebra_simps)

lemma shifted_grid_mirror:
  assumes "n < 27"
  shows "plus3 (shifted_grid n) (shifted_grid (26 - n))
     = (- (1 / 2251799813685248), - (1 / 2251799813685248), - (1 / 2251799813685248))"
proof -
  from grid_of_mirror [OF assms]
  have m: "grid_of (26 - n) = (2 - n div 9, 2 - (n div 3) mod 3, 2 - n mod 3)"
    and x: "n div 9 \<le> 2" and y: "(n div 3) mod 3 \<le> 2" and z: "n mod 3 \<le> 2"
    by simp_all
  have "shifted_grid (26 - n) =
      (shifted_axis (2 - n div 9), shifted_axis (2 - (n div 3) mod 3),
       shifted_axis (2 - n mod 3))"
    by (simp only: shifted_grid_def m prod.case)
  then show ?thesis
    by (simp add: shifted_grid_def grid_of_def shifted_axis_mirror [OF x]
        shifted_axis_mirror [OF y] shifted_axis_mirror [OF z])
qed

text \<open>Distinct indices have distinct grid coordinates.\<close>

lemma grid_of_inj:
  assumes "grid_of i = grid_of j"
  shows "i = j"
proof -
  from assms have a: "i div 9 = j div 9" and b: "(i div 3) mod 3 = (j div 3) mod 3"
    and c: "i mod 3 = j mod 3"
    by (simp_all add: grid_of_def)
  have "i div 3 div 3 = j div 3 div 3"
    using a by (simp add: div_mult2_eq [symmetric])
  with b have "i div 3 = j div 3" by (metis div_mult_mod_eq)
  with c show ?thesis by (metis div_mult_mod_eq)
qed

lemma sq_diff_nat: "(a::nat) \<noteq> b \<Longrightarrow> 1 \<le> (real a - real b)\<^sup>2"
proof -
  assume "a \<noteq> b"
  then have "1 \<le> \<bar>real a - real b\<bar>" by linarith
  then have "1\<^sup>2 \<le> \<bar>real a - real b\<bar>\<^sup>2" by (rule power_mono) simp
  then show ?thesis by simp
qed

lemma spacing_pos: "0 < spacing"
  by (simp add: spacing_def)

lemma distance_sq_grid:
  "distance_sq (shifted_grid i) (shifted_grid j) =
    spacing\<^sup>2 * ((real (i div 9) - real (j div 9))\<^sup>2
       + (real ((i div 3) mod 3) - real ((j div 3) mod 3))\<^sup>2
       + (real (i mod 3) - real (j mod 3))\<^sup>2)"
  by (simp add: shifted_grid_def grid_of_def shifted_axis_def power2_eq_square algebra_simps)

lemma distance_lower:
  assumes "i \<noteq> j"
  shows "spacing \<le> distance (shifted_grid i) (shifted_grid j)"
proof -
  let ?X = "(real (i div 9) - real (j div 9))\<^sup>2"
  let ?Y = "(real ((i div 3) mod 3) - real ((j div 3) mod 3))\<^sup>2"
  let ?Z = "(real (i mod 3) - real (j mod 3))\<^sup>2"
  from assms grid_of_inj [of i j] have "grid_of i \<noteq> grid_of j" by blast
  then have "i div 9 \<noteq> j div 9 \<or> (i div 3) mod 3 \<noteq> (j div 3) mod 3 \<or> i mod 3 \<noteq> j mod 3"
    by (simp add: grid_of_def)
  then have "1 \<le> ?X \<or> 1 \<le> ?Y \<or> 1 \<le> ?Z" using sq_diff_nat by blast
  moreover have "0 \<le> ?X" "0 \<le> ?Y" "0 \<le> ?Z" by simp_all
  ultimately have "1 \<le> ?X + ?Y + ?Z" by linarith
  then have "spacing\<^sup>2 * 1 \<le> spacing\<^sup>2 * (?X + ?Y + ?Z)"
    by (intro mult_left_mono) simp_all
  then have "spacing\<^sup>2 \<le> distance_sq (shifted_grid i) (shifted_grid j)"
    by (simp add: distance_sq_grid)
  then show ?thesis unfolding distance_def by (rule real_le_rsqrt)
qed

lemma distance_neighbours:
  "distance (shifted_grid 0) (shifted_grid 1) = spacing"
proof -
  have "distance_sq (shifted_grid 0) (shifted_grid 1) = spacing\<^sup>2"
    by (simp add: distance_sq_grid)
  then show ?thesis using spacing_pos by (simp add: distance_def)
qed

text \<open>
  C2, as stated, fails at the constants of the source: in doubles the 27 positions for
  \<open>s = 1\<close> and \<open>g = 0.05\<close> are not symmetric about the origin. Cubelet 0 is at
  -1.0500000000000003 on every axis, the middle cubelet 13 is at \<open>- 2 ^ -52\<close> and not at
  the origin, cubelet 26 is at 1.0499999999999998, and the mirror image of cubelet 0 is
  not the position of any cubelet.
\<close>

theorem cubelets_not_symmetric:
  "centre (cubelets ! 0)
     = Some (- (2364389804369511 / 2251799813685248), - (2364389804369511 / 2251799813685248),
             - (2364389804369511 / 2251799813685248))
   \<and> centre (cubelets ! 13)
     = Some (- (1 / 4503599627370496), - (1 / 4503599627370496), - (1 / 4503599627370496))
   \<and> centre (cubelets ! 26)
     = Some (1182194902184755 / 1125899906842624, 1182194902184755 / 1125899906842624,
             1182194902184755 / 1125899906842624)
   \<and> Some (mirror (- (2364389804369511 / 2251799813685248),
                   - (2364389804369511 / 2251799813685248),
                   - (2364389804369511 / 2251799813685248)))
       \<notin> set (map centre cubelets)"
proof -
  have c0: "centre (cubelets ! 0)
     = Some (- (2364389804369511 / 2251799813685248), - (2364389804369511 / 2251799813685248),
             - (2364389804369511 / 2251799813685248))"
    using centre_nth [of 0]
    by (simp add: shifted_grid_def grid_of_def shifted_axis_def spacing_def)
  have c13: "centre (cubelets ! 13)
     = Some (- (1 / 4503599627370496), - (1 / 4503599627370496), - (1 / 4503599627370496))"
    using centre_nth [of 13]
    by (simp add: shifted_grid_def grid_of_def shifted_axis_def spacing_def)
  have c26: "centre (cubelets ! 26)
     = Some (1182194902184755 / 1125899906842624, 1182194902184755 / 1125899906842624,
             1182194902184755 / 1125899906842624)"
    using centre_nth [of 26]
    by (simp add: shifted_grid_def grid_of_def shifted_axis_def spacing_def)
  have no: "Some (mirror (- (2364389804369511 / 2251799813685248),
                   - (2364389804369511 / 2251799813685248),
                   - (2364389804369511 / 2251799813685248)))
       \<notin> set (map centre cubelets)"
  proof
    assume "Some (mirror (- (2364389804369511 / 2251799813685248),
                   - (2364389804369511 / 2251799813685248),
                   - (2364389804369511 / 2251799813685248)))
       \<in> set (map centre cubelets)"
    then obtain n where n: "n < 27"
      and e: "centre (cubelets ! n)
        = Some (mirror (- (2364389804369511 / 2251799813685248),
                   - (2364389804369511 / 2251799813685248),
                   - (2364389804369511 / 2251799813685248)))"
      by (auto simp add: in_set_conv_nth cubelets_def length_build_cubelets)
    from e centre_nth [OF n]
    have a: "shifted_axis (n div 9) = 2364389804369511 / 2251799813685248"
      by (simp add: shifted_grid_def grid_of_def)
    from grid_of_mirror [OF n] have "n div 9 = 0 \<or> n div 9 = 1 \<or> n div 9 = 2" by auto
    with a show False
      by (auto simp add: shifted_axis_def spacing_def)
  qed
  from c0 c13 c26 no show ?thesis by blast
qed

text \<open>
  C2, amended. For every cell size \<open>s\<close> and gap \<open>g\<close> the construction loop makes exactly 27
  cubelets; the cubelet of grid coordinate \<open>(x, y, z)\<close>, each below 3, is number
  \<open>9 x + 3 y + z\<close> of the array and sits at \<open>start + i * (s + g)\<close> on each axis, with
  \<open>start = -((s + g) * 3 - g) / 2 + s / 2\<close>, every operation rounded to a double. For the
  constants of the source, \<open>s = 1\<close> and \<open>g = 0.05\<close>, the sum \<open>s + g\<close> is the double 1.05
  and the centres are those of the exactly symmetric grid of that spacing moved by
  \<open>- 2 ^ -52\<close> on every axis. So two different cubelets are at least the double
  \<open>s + g\<close> apart and two of them are exactly that far apart, while the positions are
  symmetric about the origin only up to \<open>2 ^ -51\<close> per axis: the centres of cubelet \<open>n\<close>
  and cubelet \<open>26 - n\<close> add up to \<open>- 2 ^ -51\<close> on every axis.
\<close>

theorem build_cubelets_grid:
  "length (build_cubelets s g) = 27
   \<and> (\<forall>x<3. \<forall>y<3. \<forall>z<3.
        9 * x + 3 * y + z < 27
        \<and> position (build_cubelets s g ! (9 * x + 3 * y + z))
            = (axis_position s g x, axis_position s g y, axis_position s g z))
   \<and> fadd cubeSize gap = Finite spacing
   \<and> (\<forall>x<3. \<forall>y<3. \<forall>z<3.
        centre (cubelets ! (9 * x + 3 * y + z))
          = Some (shifted_axis x, shifted_axis y, shifted_axis z))
   \<and> (\<forall>n<27. \<exists>p q. centre (cubelets ! n) = Some p \<and> centre (cubelets ! (26 - n)) = Some q
          \<and> plus3 p q = (- (1 / 2 ^ 51), - (1 / 2 ^ 51), - (1 / 2 ^ 51)))
   \<and> (\<forall>i<27. \<forall>j<27. i \<noteq> j \<longrightarrow>
        (\<exists>p q. centre (cubelets ! i) = Some p \<and> centre (cubelets ! j) = Some q
          \<and> spacing \<le> distance p q))
   \<and> (\<exists>i<27. \<exists>j<27. \<exists>p q. i \<noteq> j
        \<and> centre (cubelets ! i) = Some p \<and> centre (cubelets ! j) = Some q
        \<and> distance p q = spacing)"
proof -
  have grid: "\<forall>x<3. \<forall>y<3. \<forall>z<3.
        9 * x + 3 * y + z < 27
        \<and> position (build_cubelets s g ! (9 * x + 3 * y + z))
            = (axis_position s g x, axis_position s g y, axis_position s g z)"
  proof (intro allI impI)
    fix x y z :: nat
    assume "x < 3" and "y < 3" and "z < 3"
    from grid_of_index [OF this]
    have b: "9 * x + 3 * y + z < 27" and c: "grid_of (9 * x + 3 * y + z) = (x, y, z)"
      by simp_all
    from c have "(9 * x + 3 * y + z) div 9 = x" and "((9 * x + 3 * y + z) div 3) mod 3 = y"
      and "(9 * x + 3 * y + z) mod 3 = z"
      by (simp_all add: grid_of_def)
    with position_nth [OF b, of s g] b
    show "9 * x + 3 * y + z < 27
        \<and> position (build_cubelets s g ! (9 * x + 3 * y + z))
            = (axis_position s g x, axis_position s g y, axis_position s g z)"
      by simp
  qed
  have cen: "\<forall>x<3. \<forall>y<3. \<forall>z<3.
        centre (cubelets ! (9 * x + 3 * y + z))
          = Some (shifted_axis x, shifted_axis y, shifted_axis z)"
  proof (intro allI impI)
    fix x y z :: nat
    assume "x < 3" and "y < 3" and "z < 3"
    from grid_of_index [OF this]
    have b: "9 * x + 3 * y + z < 27" and c: "grid_of (9 * x + 3 * y + z) = (x, y, z)"
      by simp_all
    from centre_nth [OF b] c
    show "centre (cubelets ! (9 * x + 3 * y + z))
          = Some (shifted_axis x, shifted_axis y, shifted_axis z)"
      by (simp add: shifted_grid_def)
  qed
  have p: "(2::real) ^ 51 = 2251799813685248" by simp
  have sym: "\<forall>n<27. \<exists>p q. centre (cubelets ! n) = Some p
          \<and> centre (cubelets ! (26 - n)) = Some q
          \<and> plus3 p q = (- (1 / 2 ^ 51), - (1 / 2 ^ 51), - (1 / 2 ^ 51))"
  proof (intro allI impI)
    fix n :: nat
    assume n: "n < 27"
    then have m: "26 - n < 27" by simp
    from centre_nth [OF n] centre_nth [OF m] shifted_grid_mirror [OF n]
    show "\<exists>p q. centre (cubelets ! n) = Some p \<and> centre (cubelets ! (26 - n)) = Some q
          \<and> plus3 p q = (- (1 / 2 ^ 51), - (1 / 2 ^ 51), - (1 / 2 ^ 51))"
      unfolding p by blast
  qed
  have low: "\<forall>i<27. \<forall>j<27. i \<noteq> j \<longrightarrow>
        (\<exists>p q. centre (cubelets ! i) = Some p \<and> centre (cubelets ! j) = Some q
          \<and> spacing \<le> distance p q)"
    using centre_nth distance_lower by blast
  have "(0::nat) < 27" and "(1::nat) < 27" and "(0::nat) \<noteq> 1" by simp_all
  with centre_nth [of 0] centre_nth [of 1] distance_neighbours
  have ex: "\<exists>i<27. \<exists>j<27. \<exists>p q. i \<noteq> j
        \<and> centre (cubelets ! i) = Some p \<and> centre (cubelets ! j) = Some q
        \<and> distance p q = spacing"
    by blast
  from length_build_cubelets [of s g] grid spacing_value cen sym low ex
  show ?thesis by blast
qed

theorem build_cubelets_grid_witness:
  "length cubelets = 27
   \<and> position (cubelets ! 0)
       = (axis_position cubeSize gap 0, axis_position cubeSize gap 0,
          axis_position cubeSize gap 0)
   \<and> centre (cubelets ! 0)
       = Some (- (2364389804369511 / 2251799813685248),
               - (2364389804369511 / 2251799813685248),
               - (2364389804369511 / 2251799813685248))
   \<and> centre (cubelets ! 26)
       = Some (1182194902184755 / 1125899906842624, 1182194902184755 / 1125899906842624,
               1182194902184755 / 1125899906842624)
   \<and> plus3 (- (2364389804369511 / 2251799813685248),
            - (2364389804369511 / 2251799813685248),
            - (2364389804369511 / 2251799813685248))
           (1182194902184755 / 1125899906842624, 1182194902184755 / 1125899906842624,
            1182194902184755 / 1125899906842624)
       = (- (1 / 2 ^ 51), - (1 / 2 ^ 51), - (1 / 2 ^ 51))"
proof -
  note t = build_cubelets_grid [of cubeSize gap]
  from t have len: "length cubelets = 27" by (simp add: cubelets_def)
  from t have g: "\<And>x y z. x < 3 \<Longrightarrow> y < 3 \<Longrightarrow> z < 3 \<Longrightarrow>
      position (cubelets ! (9 * x + 3 * y + z))
        = (axis_position cubeSize gap x, axis_position cubeSize gap y,
           axis_position cubeSize gap z)"
    by (simp add: cubelets_def)
  from t have c: "\<And>x y z. x < 3 \<Longrightarrow> y < 3 \<Longrightarrow> z < 3 \<Longrightarrow>
      centre (cubelets ! (9 * x + 3 * y + z))
        = Some (shifted_axis x, shifted_axis y, shifted_axis z)"
    by blast
  from g [of 0 0 0] have p0: "position (cubelets ! 0)
       = (axis_position cubeSize gap 0, axis_position cubeSize gap 0,
          axis_position cubeSize gap 0)"
    by simp
  from c [of 0 0 0] have c0: "centre (cubelets ! 0)
       = Some (- (2364389804369511 / 2251799813685248),
               - (2364389804369511 / 2251799813685248),
               - (2364389804369511 / 2251799813685248))"
    by (simp add: shifted_axis_def spacing_def)
  from c [of 2 2 2] have c26: "centre (cubelets ! 26)
       = Some (1182194902184755 / 1125899906842624, 1182194902184755 / 1125899906842624,
               1182194902184755 / 1125899906842624)"
    by (simp add: shifted_axis_def spacing_def)
  have s: "plus3 (- (2364389804369511 / 2251799813685248),
            - (2364389804369511 / 2251799813685248),
            - (2364389804369511 / 2251799813685248))
           (1182194902184755 / 1125899906842624, 1182194902184755 / 1125899906842624,
            1182194902184755 / 1125899906842624)
       = (- (1 / 2 ^ 51), - (1 / 2 ^ 51), - (1 / 2 ^ 51))"
    by simp
  from len p0 c0 c26 s show ?thesis by blast
qed

section \<open>Properties of the cleanup function\<close>

lemma cleanup_scope_resolves:
  "first_unbound cleanup_scope [''window'', ''handleResize''] = None"
  "first_unbound cleanup_scope [''currentMount'', ''onMouseDown''] = None"
  "first_unbound cleanup_scope [''currentMount'', ''onMouseMove''] = None"
  "first_unbound cleanup_scope [''currentMount'', ''onMouseUp''] = None"
  "first_unbound cleanup_scope [''currentMount'', ''renderer''] = None"
  "first_unbound cleanup_scope [''renderer''] = None"
  "first_unbound cleanup_scope [''scene''] = None"
  by (simp_all add: cleanup_scope_def scene_effect_scope_def component_scope_def
      module_scope_def global_scope_def)

lemma cleanup_scope_geometry:
  "first_unbound cleanup_scope [''geometry''] = Some ''geometry''"
  "first_unbound cleanup_scope [''materials''] = Some ''materials''"
  by (simp_all add: cleanup_scope_def scene_effect_scope_def component_scope_def
      module_scope_def global_scope_def)

text \<open>
  C6. The cleanup function removes the eight registered listeners, detaches the canvas and
  disposes of the renderer, and then throws: \<open>geometry\<close> (and \<open>materials\<close> after it) is
  declared inside the loop body and is not visible to the cleanup closure. No geometry
  and no material is disposed of and the scene is not cleared. The listeners are all
  removed before the first graphics resource is released.
\<close>

theorem cleanup_throws:
  "cleanup =
     (registered_listeners @ [RemoveChild, RendererDispose],
      Some (ReferenceError ''geometry is not defined''))
   \<and> GeometryDispose \<notin> set (fst cleanup)
   \<and> MaterialsDispose \<notin> set (fst cleanup)
   \<and> SceneClear \<notin> set (fst cleanup)
   \<and> takeWhile (\<lambda>eff. \<not> is_graphics_release eff) (fst cleanup) = registered_listeners
   \<and> ''geometry'' \<in> set loop_body_scope \<and> ''materials'' \<in> set loop_body_scope"
proof -
  have c: "cleanup =
     (registered_listeners @ [RemoveChild, RendererDispose],
      Some (ReferenceError ''geometry is not defined''))"
    by (simp add: cleanup_def cleanup_body_def registered_listeners_def
        cleanup_scope_resolves cleanup_scope_geometry del: first_unbound.simps)
  show ?thesis
    unfolding c by (simp add: registered_listeners_def loop_body_scope_def)
qed

end
